theory Spec2Isabelle
  imports Main "HOL-Library.Word"
begin

text \<open>
  A shallow embedding of two units of fairseq2's native data pipeline: the counting data
  source of count\_data\_source.h and the SentencePiece model loader and processor of
  sp\_processor.cc. Definitions come first, then the properties proved of them.
\<close>

section \<open>The counting data source (count\_data\_source.h)\<close>

text \<open>
  The header declares the class with two private members of type \<^verbatim>\<open>std::int64_t\<close>,
  \<^verbatim>\<open>start_\<close> and \<^verbatim>\<open>counter_\<close>, and a constructor that sets both to its argument.
  A 64-bit integer is a \<^typ>\<open>64 word\<close>: addition wraps around, \<^term>\<open>sint\<close> reads the
  signed value. The two members are the record fields \<open>start\<close> and \<open>counter\<close>.
\<close>

type_synonym int64 = "64 word"

record count_data_source =
  start :: int64
  counter :: int64

text \<open>The constructor \<^verbatim>\<open>count_data_source(std::int64_t start)\<close>:
  \<^verbatim>\<open>start_{start}, counter_{start}\<close>.\<close>

definition new_count_data_source :: "int64 \<Rightarrow> count_data_source" where
  "new_count_data_source s = \<lparr>start = s, counter = s\<rparr>"

text \<open>
  Modelled from the spec: the record type \<^verbatim>\<open>data\<close> that \<^verbatim>\<open>next()\<close> returns and that a
  tape holds is declared in data.h, which is absent. The spec calls it an opaque tagged
  record type and the tape an ordered sequence of typed values; the tags needed here are
  the 64-bit integer and one other, standing for every value that is not an integer.
\<close>

datatype data = data_int64 int64 | data_string string

text \<open>
  Modelled from the spec: the class \<^verbatim>\<open>tape\<close> (tape.h is absent). The spec has it as an
  append-only, ordered capture medium with a read cursor, consumed front to back during
  a reload; a reload that does not mirror the record sequence is a contract violation.
  The cursor is \<open>iter\<close>; a read at the end of the tape, or of a value of another type,
  is the error \<open>corrupt_tape\<close>.
\<close>

record tape =
  storage :: "data list"
  iter :: nat

datatype tape_error = corrupt_tape

text \<open>Modelled from the spec: a tape on which nothing was recorded, its cursor at the
  front.\<close>

definition empty_tape :: tape where
  "empty_tape = \<lparr>storage = [], iter = 0\<rparr>"

text \<open>Modelled from the spec: \<^verbatim>\<open>tape::record\<close> appends one value; the tape is append-only,
  so what it held and its cursor stay.\<close>

definition tape_record :: "data \<Rightarrow> tape \<Rightarrow> tape" where
  "tape_record d t = t\<lparr>storage := storage t @ [d]\<rparr>"

text \<open>Modelled from the spec: \<^verbatim>\<open>tape::read<std::int64_t>\<close> takes the value under the
  cursor, which must be an integer, and moves the cursor past it.\<close>

definition tape_read_int64 :: "tape \<Rightarrow> tape_error + (int64 \<times> tape)" where
  "tape_read_int64 t =
     (if iter t < length (storage t) then
        (case storage t ! iter t of
           data_int64 v \<Rightarrow> Inr (v, t\<lparr>iter := iter t + 1\<rparr>)
         | data_string _ \<Rightarrow> Inl corrupt_tape)
      else Inl corrupt_tape)"

text \<open>
  Modelled from the spec: the body of \<^verbatim>\<open>count_data_source::next\<close> (count\_data\_source.cc
  is absent). The spec: \<^verbatim>\<open>next()\<close> always succeeds, returns the current counter, then
  increments it. The result is the optional record and the updated object. The
  increment is the one of \<^typ>\<open>64 word\<close>, which wraps around; C++ leaves the overflow of a
  signed counter undefined, and a source reaches it only after \<open>2 ^ 63 - start\<close> calls.
\<close>

definition next_count :: "count_data_source \<Rightarrow> data option \<times> count_data_source" where
  "next_count src = (Some (data_int64 (counter src)), src\<lparr>counter := counter src + 1\<rparr>)"

text \<open>
  Modelled from the spec: the body of \<^verbatim>\<open>count_data_source::reset\<close>, absent as well.
  The spec: \<^verbatim>\<open>reset()\<close> sets counter back to start.
\<close>

definition reset :: "count_data_source \<Rightarrow> count_data_source" where
  "reset src = src\<lparr>counter := start src\<rparr>"

text \<open>
  Modelled from the spec: the body of \<^verbatim>\<open>count_data_source::record_position\<close>, a const
  member that takes the tape by reference. The spec: it writes the counter only.
\<close>

definition record_position :: "count_data_source \<Rightarrow> tape \<Rightarrow> tape" where
  "record_position src t = tape_record (data_int64 (counter src)) t"

text \<open>
  Modelled from the spec: the body of \<^verbatim>\<open>count_data_source::reload_position\<close>. The
  spec: it reads the counter only, leaving start untouched. Both the object and the tape
  (its cursor) change; a tape that cannot be read leaves an error.
\<close>

definition reload_position ::
  "count_data_source \<Rightarrow> tape \<Rightarrow> tape_error + (count_data_source \<times> tape)" where
  "reload_position src t =
     (case tape_read_int64 t of
        Inl e \<Rightarrow> Inl e
      | Inr (v, t') \<Rightarrow> Inr (src\<lparr>counter := v\<rparr>, t'))"

text \<open>A caller that pulls \<open>k\<close> records in a row: the values in the order they were
  returned, and the object after the last call.\<close>

fun advance :: "nat \<Rightarrow> count_data_source \<Rightarrow> data option list \<times> count_data_source" where
  "advance 0 src = ([], src)"
| "advance (Suc k) src =
     (case next_count src of
        (v, src') \<Rightarrow> (case advance k src' of (vs, src'') \<Rightarrow> (v # vs, src'')))"

text \<open>The four operations of the interface, for a caller that applies any sequence of
  them to one object and one tape. A reload that fails throws before it assigns, so the
  object is as it was.\<close>

datatype source_op = Next | Reset | Record_position | Reload_position

fun apply_source_op :: "source_op \<Rightarrow> count_data_source \<times> tape \<Rightarrow> count_data_source \<times> tape" where
  "apply_source_op Next (src, t) = (snd (next_count src), t)"
| "apply_source_op Reset (src, t) = (reset src, t)"
| "apply_source_op Record_position (src, t) = (src, record_position src t)"
| "apply_source_op Reload_position (src, t) =
     (case reload_position src t of Inl e \<Rightarrow> (src, t) | Inr r \<Rightarrow> r)"

fun apply_source_ops :: "source_op list \<Rightarrow> count_data_source \<times> tape \<Rightarrow> count_data_source \<times> tape" where
  "apply_source_ops [] st = st"
| "apply_source_ops (x # xs) st = apply_source_ops xs (apply_source_op x st)"

section \<open>The SentencePiece model loader and processor (sp\_processor.cc)\<close>

subsection \<open>The model protobuf\<close>

text \<open>
  The loader works on the protobuf message \<^verbatim>\<open>ModelProto\<close> of the SentencePiece library.
  Of the message, the model has what the loader reads or writes: the repeated field
  \<^verbatim>\<open>pieces\<close> and the \<^verbatim>\<open>pad_piece\<close> of the trainer spec. A piece has its surface string,
  its score (a \<^verbatim>\<open>float\<close>, kept as its 32-bit pattern: the loader never computes with it;
  a new piece has the default \<open>0.0\<close>, all bits clear) and its type, \<open>piece_type\<close> here.
  An optional protobuf field that was never set is \<open>None\<close>.
\<close>

type_synonym int32 = "32 word"
type_synonym size_t = "64 word"

datatype ModelProto_SentencePiece_Type = NORMAL | UNKNOWN | CONTROL | USER_DEFINED | UNUSED | BYTE

record ModelProto_SentencePiece =
  piece :: string
  score :: "32 word"
  piece_type :: ModelProto_SentencePiece_Type

record TrainerSpec =
  pad_piece :: "string option"

record ModelProto =
  pieces :: "ModelProto_SentencePiece list"
  trainer_spec :: TrainerSpec

text \<open>\<^verbatim>\<open>proto_->mutable_trainer_spec()->set_pad_piece(s)\<close>.\<close>

definition set_pad_piece :: "string \<Rightarrow> ModelProto \<Rightarrow> ModelProto" where
  "set_pad_piece s proto = proto\<lparr>trainer_spec := (trainer_spec proto)\<lparr>pad_piece := Some s\<rparr>\<rparr>"

text \<open>
  \<^verbatim>\<open>RepeatedPtrField::SwapElements(i, j)\<close> exchanges two elements. The library leaves
  an index out of range undefined; the loader's loop calls it only with
  \<open>0 \<le> i - 1 < i < size\<close> (lemma \<open>move_to_front_append\<close> below goes through these
  calls), and the model leaves the list alone elsewhere.
\<close>

definition SwapElements :: "int \<Rightarrow> int \<Rightarrow> 'a list \<Rightarrow> 'a list" where
  "SwapElements i j xs =
     (if 0 \<le> i \<and> i < int (length xs) \<and> 0 \<le> j \<and> j < int (length xs)
      then xs[nat i := xs ! nat j, nat j := xs ! nat i]
      else xs)"

subsection \<open>sp\_model\_loader\<close>

text \<open>
  \<^verbatim>\<open>sp_model_loader::add_piece\<close>: \<^verbatim>\<open>proto_->add_pieces()\<close> appends a default piece, whose
  surface and type are then set.
\<close>

definition add_piece :: "string \<Rightarrow> ModelProto \<Rightarrow> ModelProto" where
  "add_piece p proto =
     proto\<lparr>pieces := pieces proto @ [\<lparr>piece = p, score = 0, piece_type = CONTROL\<rparr>]\<rparr>"

text \<open>The piece that \<^verbatim>\<open>add_piece\<close> appends for a surface string.\<close>

definition control_piece :: "string \<Rightarrow> ModelProto_SentencePiece" where
  "control_piece s = \<lparr>piece = s, score = 0, piece_type = CONTROL\<rparr>"

text \<open>
  The inner loop of \<^verbatim>\<open>add_control_tokens\<close>:
  \<^verbatim>\<open>for (int i = pieces->size() - 1; i > 0; --i) pieces->SwapElements(i, i - 1);\<close>
  The index is a C++ \<^verbatim>\<open>int\<close>, as the size of a repeated field is, so it stays within
  \<open>int\<close>'s range and is a HOL integer here.
\<close>

function move_to_front :: "int \<Rightarrow> 'a list \<Rightarrow> 'a list" where
  "move_to_front i xs = (if i > 0 then move_to_front (i - 1) (SwapElements i (i - 1) xs) else xs)"
  by pat_completeness auto
termination
  by (relation "measure (\<lambda>(i, xs). nat i)") auto

text \<open>The equation of the loop is applied by hand, one iteration at a time.\<close>

declare move_to_front.simps [simp del]

text \<open>
  The body of the outer loop of \<^verbatim>\<open>add_control_tokens\<close>, for one token of
  \<^verbatim>\<open>opts_.control_tokens()\<close>, in the order of the source: an empty token is skipped; a
  padding marker sets the pad piece and adds the piece \<^verbatim>\<open>"<pad>"\<close>, which the legacy
  spelling then moves to the front; any other token is added as it is.
\<close>

definition add_control_token :: "string \<Rightarrow> ModelProto \<Rightarrow> ModelProto" where
  "add_control_token token proto =
     (if token = [] then proto
      else if token = ''<pad>'' \<or> token = ''<pad>@0'' then
        (let proto1 = set_pad_piece ''<pad>'' proto;
             proto2 = add_piece ''<pad>'' proto1
         in if token = ''<pad>@0''
            then proto2\<lparr>pieces := move_to_front (int (length (pieces proto2)) - 1) (pieces proto2)\<rparr>
            else proto2)
      else add_piece token proto)"

text \<open>
  \<^verbatim>\<open>sp_model_loader::add_control_tokens\<close>: the loop over the configured tokens, in their
  order. (The loop moves a token's string out of the options when it adds it; the options
  are not read again.)
\<close>

fun add_control_tokens :: "string list \<Rightarrow> ModelProto \<Rightarrow> ModelProto" where
  "add_control_tokens [] proto = proto"
| "add_control_tokens (token # tokens) proto =
     add_control_tokens tokens (add_control_token token proto)"

subsection \<open>The library and the exceptions\<close>

text \<open>
  The SentencePiece library is outside the repository. What the code asks of it is a
  parameter of the model: the status and the message that \<^verbatim>\<open>io::LoadModelProto\<close> leaves
  for a pathname, the status and the engine that \<^verbatim>\<open>SentencePieceProcessor::Load\<close>
  leaves for a patched message, and the answers of the loaded engine. A status has its
  own \<^verbatim>\<open>ok()\<close>, \<^verbatim>\<open>code()\<close> and \<^verbatim>\<open>message()\<close>; nothing is assumed of how they relate.
\<close>

datatype StatusCode =
  kOk | kCancelled | kUnknown | kInvalidArgument | kDeadlineExceeded | kNotFound
  | kAlreadyExists | kPermissionDenied | kResourceExhausted | kFailedPrecondition
  | kAborted | kOutOfRange | kUnimplemented | kInternal | kUnavailable | kDataLoss
  | kUnauthenticated

record Status =
  ok :: bool
  code :: StatusCode
  message :: string

record SentencePieceProcessor =
  unk_id :: int32
  bos_id :: int32
  eos_id :: int32
  pad_id :: int32
  GetPieceSize :: int32
  PieceToId :: "string \<Rightarrow> int32"
  IdToPiece :: "int32 \<Rightarrow> string"

record sentencepiece =
  LoadModelProto :: "string \<Rightarrow> Status \<times> ModelProto"
  Load :: "ModelProto \<Rightarrow> Status \<times> SentencePieceProcessor"

text \<open>
  The exceptions the code throws: \<^verbatim>\<open>std::system_error\<close> with an error condition,
  \<^verbatim>\<open>std::runtime_error\<close> and \<^verbatim>\<open>std::domain_error\<close> with a message. In the words of the
  specification, \<open>system_error no_such_file_or_directory\<close> is NotFound,
  \<open>system_error permission_denied\<close> is PermissionDenied, a \<open>runtime_error\<close> of the
  loader is ParseError, the \<open>runtime_error\<close> of the constructor is ConfigError and the
  \<open>domain_error\<close> is RangeError.
\<close>

datatype errc = no_such_file_or_directory | permission_denied

datatype exception = system_error errc | runtime_error string | domain_error string

text \<open>\<^verbatim>\<open>sp_model_loader::load_proto\<close>.\<close>

definition load_proto :: "sentencepiece \<Rightarrow> string \<Rightarrow> exception + ModelProto" where
  "load_proto lib pathname =
     (case LoadModelProto lib pathname of
        (st, proto) \<Rightarrow>
          if ok st then Inr proto
          else if code st = kNotFound then Inl (system_error no_such_file_or_directory)
          else if code st = kPermissionDenied then Inl (system_error permission_denied)
          else Inl (runtime_error (message st)))"

text \<open>\<^verbatim>\<open>sp_model_loader::load_processor\<close>.\<close>

definition load_processor :: "sentencepiece \<Rightarrow> ModelProto \<Rightarrow> exception + SentencePieceProcessor" where
  "load_processor lib proto =
     (case Load lib proto of
        (st, processor) \<Rightarrow>
          if \<not> ok st then Inl (runtime_error (message st)) else Inr processor)"

text \<open>
  \<^verbatim>\<open>sp_model_loader::load\<close>: the three steps in a row; an exception of a step leaves the
  function at once. The loader's members \<^verbatim>\<open>pathname_\<close> and \<^verbatim>\<open>opts_\<close> are the arguments
  (of the options, the control tokens are what the loader reads).
\<close>

definition load :: "sentencepiece \<Rightarrow> string \<Rightarrow> string list \<Rightarrow> exception + SentencePieceProcessor" where
  "load lib pathname control_tokens =
     (case load_proto lib pathname of
        Inl e \<Rightarrow> Inl e
      | Inr proto \<Rightarrow> load_processor lib (add_control_tokens control_tokens proto))"

subsection \<open>sp\_processor\<close>

text \<open>
  Modelled from the spec: \<^verbatim>\<open>conditional_cast\<close> of utils/cast.h, which is absent. The spec
  has the constructor cache the four ids and the engine's piece count as they are, so
  the cast is the conversion of C++ between the two integer types: none from \<^verbatim>\<open>int\<close> to
  \<^verbatim>\<open>std::int32_t\<close>, sign extension from \<^verbatim>\<open>int\<close> to the 64-bit \<^verbatim>\<open>std::size_t\<close>.
\<close>

definition conditional_cast_int32 :: "int32 \<Rightarrow> int32" where
  "conditional_cast_int32 v = v"

definition conditional_cast_size_t :: "int32 \<Rightarrow> size_t" where
  "conditional_cast_size_t v = scast v"

record sp_processor =
  native :: SentencePieceProcessor
  unk_idx :: int32
  bos_idx :: int32
  eos_idx :: int32
  pad_idx :: int32
  vocab_size :: size_t

text \<open>
  The constructor \<^verbatim>\<open>sp_processor::sp_processor\<close>. A constructor that throws leaves no
  object, so the result is the exception or the finished object.
\<close>

definition new_sp_processor :: "sentencepiece \<Rightarrow> string \<Rightarrow> string list \<Rightarrow> exception + sp_processor" where
  "new_sp_processor lib model_pathname control_tokens =
     (case load lib model_pathname control_tokens of
        Inl e \<Rightarrow> Inl e
      | Inr engine \<Rightarrow>
          (let unk = conditional_cast_int32 (unk_id engine);
               bos = conditional_cast_int32 (bos_id engine);
               eos = conditional_cast_int32 (eos_id engine);
               pad = conditional_cast_int32 (pad_id engine)
           in if pad <s 0 then Inl (runtime_error ''The model has no padding token specified.'')
              else Inr \<lparr>native = engine, unk_idx = unk, bos_idx = bos, eos_idx = eos,
                        pad_idx = pad,
                        vocab_size = conditional_cast_size_t (GetPieceSize engine)\<rparr>))"

text \<open>\<^verbatim>\<open>sp_processor::token_to_index\<close>: no statement of the body throws.\<close>

definition token_to_index :: "sp_processor \<Rightarrow> string \<Rightarrow> exception + int32" where
  "token_to_index p token = Inr (conditional_cast_int32 (PieceToId (native p) token))"

text \<open>
  \<^verbatim>\<open>sp_processor::index_to_token\<close>: \<^verbatim>\<open>static_cast<std::size_t>(idx)\<close> extends the sign
  of the 32-bit index, and the comparison is the unsigned one of \<^verbatim>\<open>std::size_t\<close>.
\<close>

definition index_to_token :: "sp_processor \<Rightarrow> int32 \<Rightarrow> exception + string" where
  "index_to_token p idx =
     (if (scast idx :: size_t) \<ge> vocab_size p
      then Inl (domain_error ''The specified index is out of range.'')
      else Inr (IdToPiece (native p) (conditional_cast_int32 idx)))"


subsection \<open>The compiled engine\<close>

text \<open>
  Modelled from the spec: the vocabulary lookup of the compiled engine, which belongs to
  the library and is absent. The spec has the pieces as an ordered list in which the
  index is the vocabulary id; the id of a surface string is the index of the first piece
  with that surface, and \<open>None\<close> when the string is the surface of no piece.
\<close>

fun piece_index :: "string \<Rightarrow> ModelProto_SentencePiece list \<Rightarrow> nat option" where
  "piece_index s [] = None"
| "piece_index s (p # ps) = (if piece p = s then Some 0 else map_option Suc (piece_index s ps))"

text \<open>
  Modelled from the spec: the pad piece of a message, absent with the library. The spec
  has the model's metadata designate the pad piece; its id is the index of the piece with
  the designated surface. A message whose metadata designates none, or whose list has no
  piece of that surface, has no pad piece.
\<close>

definition pad_piece_index :: "ModelProto \<Rightarrow> nat option" where
  "pad_piece_index proto =
     (case pad_piece (trainer_spec proto) of
        None \<Rightarrow> None
      | Some s \<Rightarrow> piece_index s (pieces proto))"

text \<open>
  Modelled from the spec: the engine that the library compiles from a patched message,
  absent with the library. The spec has the engine expose its piece count and the
  reserved ids of the unknown, begin, end and pad tokens; the lookup of a token returns
  its vocabulary id, or the reserved unknown id if the token is absent; the pad id is
  negative when the pad piece is missing. Of the unknown, begin and end ids the spec says
  only that they are reserved, so they are arguments.
\<close>

definition compiled_engine :: "int32 \<Rightarrow> int32 \<Rightarrow> int32 \<Rightarrow> ModelProto \<Rightarrow> SentencePieceProcessor" where
  "compiled_engine unk bos eos proto =
     \<lparr>unk_id = unk, bos_id = bos, eos_id = eos,
      pad_id = (case pad_piece_index proto of Some i \<Rightarrow> of_nat i | None \<Rightarrow> - 1),
      GetPieceSize = of_nat (length (pieces proto)),
      PieceToId = (\<lambda>token. case piece_index token (pieces proto) of
                              Some i \<Rightarrow> of_nat i
                            | None \<Rightarrow> unk),
      IdToPiece = (\<lambda>i. piece (pieces proto ! unat i))\<rparr>"

text \<open>
  Modelled from the spec: a library whose compile step yields the engine above. What the
  spec leaves open stays an argument: what \<^verbatim>\<open>io::LoadModelProto\<close> finds under a pathname,
  the status of the compile step for a message, and the three reserved ids of a message.
\<close>

definition modelled_library ::
  "(string \<Rightarrow> Status \<times> ModelProto) \<Rightarrow> (ModelProto \<Rightarrow> Status) \<Rightarrow>
   (ModelProto \<Rightarrow> int32 \<times> int32 \<times> int32) \<Rightarrow> sentencepiece" where
  "modelled_library files status reserved =
     \<lparr>LoadModelProto = files,
      Load = (\<lambda>proto.
        (status proto,
         case reserved proto of (unk, bos, eos) \<Rightarrow> compiled_engine unk bos eos proto))\<rparr>"

subsection \<open>An example library\<close>

text \<open>
  A small library at which the functions above are evaluated: three pathnames that cannot
  be loaded, each with its own status code, and any other pathname giving a model of
  three pieces without a pad piece. Its engine numbers the pieces in the order of the
  list, answers the unknown id for a token that is no piece, has the pad id \<open>-1\<close> when no
  piece is \<^verbatim>\<open>"<pad>"\<close>, and refuses a list in which a surface occurs twice.
\<close>

definition example_engine :: "ModelProto \<Rightarrow> SentencePieceProcessor" where
  "example_engine proto =
     \<lparr>unk_id = (case piece_index ''<unk>'' (pieces proto) of Some i \<Rightarrow> of_nat i | None \<Rightarrow> 0),
      bos_id = (case piece_index ''<s>'' (pieces proto) of Some i \<Rightarrow> of_nat i | None \<Rightarrow> - 1),
      eos_id = (case piece_index ''</s>'' (pieces proto) of Some i \<Rightarrow> of_nat i | None \<Rightarrow> - 1),
      pad_id = (case piece_index ''<pad>'' (pieces proto) of Some i \<Rightarrow> of_nat i | None \<Rightarrow> - 1),
      GetPieceSize = of_nat (length (pieces proto)),
      PieceToId = (\<lambda>t. case piece_index t (pieces proto) of
                          Some i \<Rightarrow> of_nat i
                        | None \<Rightarrow> (case piece_index ''<unk>'' (pieces proto) of
                                      Some i \<Rightarrow> of_nat i | None \<Rightarrow> 0)),
      IdToPiece = (\<lambda>i. piece (pieces proto ! unat i))\<rparr>"

definition example_model :: ModelProto where
  "example_model =
     \<lparr>pieces = [\<lparr>piece = ''<unk>'', score = 0, piece_type = UNKNOWN\<rparr>,
                \<lparr>piece = ''<s>'', score = 0, piece_type = CONTROL\<rparr>,
                \<lparr>piece = ''</s>'', score = 0, piece_type = CONTROL\<rparr>],
      trainer_spec = \<lparr>pad_piece = None\<rparr>\<rparr>"

definition example_library :: sentencepiece where
  "example_library =
     \<lparr>LoadModelProto = (\<lambda>pathname.
        if pathname = ''missing.model'' then
          (\<lparr>ok = False, code = kNotFound, message = ''No such file or directory''\<rparr>,
           \<lparr>pieces = [], trainer_spec = \<lparr>pad_piece = None\<rparr>\<rparr>)
        else if pathname = ''secret.model'' then
          (\<lparr>ok = False, code = kPermissionDenied, message = ''Permission denied''\<rparr>,
           \<lparr>pieces = [], trainer_spec = \<lparr>pad_piece = None\<rparr>\<rparr>)
        else if pathname = ''broken.model'' then
          (\<lparr>ok = False, code = kInternal, message = ''could not parse ModelProto''\<rparr>,
           \<lparr>pieces = [], trainer_spec = \<lparr>pad_piece = None\<rparr>\<rparr>)
        else (\<lparr>ok = True, code = kOk, message = []\<rparr>, example_model)),
      Load = (\<lambda>proto.
        if distinct (map piece (pieces proto))
        then (\<lparr>ok = True, code = kOk, message = []\<rparr>, example_engine proto)
        else (\<lparr>ok = False, code = kInternal, message = ''piece is already defined''\<rparr>,
              example_engine proto))\<rparr>"


definition example_reserved :: "ModelProto \<Rightarrow> int32 \<times> int32 \<times> int32" where
  "example_reserved proto =
     (case piece_index ''<unk>'' (pieces proto) of Some i \<Rightarrow> of_nat i | None \<Rightarrow> - 1,
      case piece_index ''<s>'' (pieces proto) of Some i \<Rightarrow> of_nat i | None \<Rightarrow> - 1,
      case piece_index ''</s>'' (pieces proto) of Some i \<Rightarrow> of_nat i | None \<Rightarrow> - 1)"

definition library_of :: "ModelProto \<Rightarrow> sentencepiece" where
  "library_of model =
     modelled_library (\<lambda>pathname. (\<lparr>ok = True, code = kOk, message = []\<rparr>, model))
       (\<lambda>proto. \<lparr>ok = True, code = kOk, message = []\<rparr>) example_reserved"

section \<open>Properties of the counting data source\<close>

lemma advance_Suc:
  "advance (Suc k) src =
     (Some (data_int64 (counter src)) # fst (advance k (src\<lparr>counter := counter src + 1\<rparr>)),
      snd (advance k (src\<lparr>counter := counter src + 1\<rparr>)))"
  by (simp add: next_count_def split: prod.splits)

lemma advance_values:
  "fst (advance k src) = map (\<lambda>i. Some (data_int64 (counter src + of_nat i))) [0..<k]"
proof (induction k arbitrary: src)
  case 0
  show ?case by simp
next
  case (Suc k)
  have "map (\<lambda>i. Some (data_int64 (counter src + of_nat i))) [0..<Suc k] =
        Some (data_int64 (counter src)) #
        map (\<lambda>i. Some (data_int64 (counter src + 1 + of_nat i))) [0..<k]"
    by (simp add: upt_conv_Cons map_Suc_upt [symmetric] add.assoc del: upt_Suc)
  with Suc show ?case
    by (simp add: advance_Suc del: advance.simps)
qed

lemma advance_state:
  "snd (advance k src) = src\<lparr>counter := counter src + of_nat k\<rparr>"
proof (induction k arbitrary: src)
  case 0
  show ?case by simp
next
  case (Suc k)
  then show ?case
    by (simp add: advance_Suc add.assoc del: advance.simps)
qed

lemma advance_add:
  "fst (advance (k + m) src) = fst (advance k src) @ fst (advance m (snd (advance k src)))"
proof (induction k arbitrary: src)
  case 0
  show ?case by simp
next
  case (Suc k)
  then show ?case
    by (simp add: advance_Suc del: advance.simps)
qed

text \<open>
  The counter is a 64-bit integer, so the values below are sums in \<^typ>\<open>64 word\<close>. As long
  as the signed sum stays below \<open>2 ^ 63\<close> they are the integers \<open>s, s + 1, s + 2, \<dots>\<close>.
\<close>

lemma sint_counter_no_overflow:
  fixes s :: int64
  assumes "sint s + int i < 2 ^ 63"
  shows "sint (s + of_nat i) = sint s + int i"
proof -
  have lo: "- (2 ^ 63) \<le> sint s"
    using sint_ge [of s] by simp
  have "s + of_nat i = word_of_int (sint s + int i)"
    by simp
  then have "sint (s + of_nat i) = signed_take_bit 63 (sint s + int i)"
    by (simp only: sint_sbintrunc') simp
  also have "\<dots> = sint s + int i"
    using lo assms by (simp add: signed_take_bit_int_eq_self)
  finally show ?thesis .
qed

text \<open>
  Claim C7. For every counting data source with start value \<open>s\<close>, after any number \<open>k\<close> of
  calls of \<^verbatim>\<open>next()\<close>, \<^verbatim>\<open>reset()\<close> gives the object the constructor gave, so the next
  \<open>m\<close> calls yield \<open>s, s + 1, \<dots>, s + (m - 1)\<close>; on any object, \<^verbatim>\<open>reset()\<close> leaves the
  start value as it is and sets the counter to it.
\<close>

theorem reset_restarts:
  "reset (snd (advance k (new_count_data_source s))) = new_count_data_source s \<and>
   fst (advance m (reset (snd (advance k (new_count_data_source s))))) =
     map (\<lambda>i. Some (data_int64 (s + of_nat i))) [0..<m] \<and>
   start (reset src) = start src \<and> counter (reset src) = start src"
  by (simp add: advance_values advance_state reset_def new_count_data_source_def)

text \<open>
  Claim C2. A source constructed with start \<open>n\<close> is advanced \<open>k\<close> times and records its
  position on a tape; a fresh source constructed with the same start reloads the position
  from that tape (the reload succeeds, and the fresh source is then the very object the
  first one was) and is advanced \<open>m\<close> more times. The values before and after the
  checkpoint, one after the other, are the values of one source advanced \<open>k + m\<close> times:
  \<open>n, n + 1, \<dots>\<close>, the first value after the checkpoint being \<open>n + k\<close>, so that no value
  is repeated or skipped at the boundary.
\<close>

theorem resume_from_checkpoint:
  "reload_position (new_count_data_source n)
       (record_position (snd (advance k (new_count_data_source n))) empty_tape) =
     Inr (snd (advance k (new_count_data_source n)),
          \<lparr>storage = [data_int64 (n + of_nat k)], iter = 1\<rparr>) \<and>
   fst (advance k (new_count_data_source n)) @
     fst (advance m (snd (advance k (new_count_data_source n)))) =
     fst (advance (k + m) (new_count_data_source n)) \<and>
   fst (advance (k + m) (new_count_data_source n)) =
     map (\<lambda>i. Some (data_int64 (n + of_nat i))) [0..<k + m] \<and>
   fst (advance m (snd (advance k (new_count_data_source n)))) =
     map (\<lambda>i. Some (data_int64 (n + of_nat (k + i)))) [0..<m]"
proof (intro conjI)
  show "reload_position (new_count_data_source n)
       (record_position (snd (advance k (new_count_data_source n))) empty_tape) =
     Inr (snd (advance k (new_count_data_source n)),
          \<lparr>storage = [data_int64 (n + of_nat k)], iter = 1\<rparr>)"
    by (simp add: advance_state new_count_data_source_def reload_position_def
        record_position_def tape_record_def tape_read_int64_def empty_tape_def)
  show "fst (advance k (new_count_data_source n)) @
     fst (advance m (snd (advance k (new_count_data_source n)))) =
     fst (advance (k + m) (new_count_data_source n))"
    by (simp add: advance_add)
  show "fst (advance (k + m) (new_count_data_source n)) =
     map (\<lambda>i. Some (data_int64 (n + of_nat i))) [0..<k + m]"
    by (simp add: advance_values new_count_data_source_def)
  show "fst (advance m (snd (advance k (new_count_data_source n)))) =
     map (\<lambda>i. Some (data_int64 (n + of_nat (k + i)))) [0..<m]"
    by (simp add: advance_values advance_state new_count_data_source_def add.assoc)
qed

lemma apply_source_op_start: "start (fst (apply_source_op x st)) = start (fst st)"
  by (cases x; cases st)
     (auto simp: next_count_def reset_def reload_position_def split: sum.splits prod.splits)

lemma apply_source_ops_start: "start (fst (apply_source_ops xs st)) = start (fst st)"
  by (induction xs arbitrary: st) (simp_all add: apply_source_op_start)

text \<open>
  Claim C8. \<^verbatim>\<open>record_position\<close> appends the counter to the tape, one value and nothing
  else, and leaves the rest of the tape and its cursor as they are. \<^verbatim>\<open>reload_position\<close>
  reads the integer under the cursor into the counter and moves the cursor by one; read
  right after a record, that integer is the recorded counter. A reload leaves start
  unchanged, and so does every sequence of the four operations.
\<close>

theorem position_is_counter_only:
  "record_position src t = t\<lparr>storage := storage t @ [data_int64 (counter src)]\<rparr> \<and>
   (iter t < length (storage t) \<and> storage t ! iter t = data_int64 v \<longrightarrow>
      reload_position src t = Inr (src\<lparr>counter := v\<rparr>, t\<lparr>iter := iter t + 1\<rparr>)) \<and>
   (iter t = length (storage t) \<longrightarrow>
      reload_position dst (record_position src t) =
        Inr (dst\<lparr>counter := counter src\<rparr>, (record_position src t)\<lparr>iter := iter t + 1\<rparr>)) \<and>
   (\<forall>r. reload_position src t = Inr r \<longrightarrow> start (fst r) = start src) \<and>
   start (fst (apply_source_ops xs (src, t))) = start src"
  by (auto simp: record_position_def tape_record_def reload_position_def tape_read_int64_def
      apply_source_ops_start split: sum.splits data.splits if_splits)

theorem position_is_counter_only_witness:
  "record_position \<lparr>start = 5, counter = 8\<rparr> empty_tape =
     \<lparr>storage = [data_int64 8], iter = 0\<rparr> \<and>
   reload_position \<lparr>start = 5, counter = 5\<rparr> \<lparr>storage = [data_int64 8], iter = 0\<rparr> =
     Inr (\<lparr>start = 5, counter = 8\<rparr>, \<lparr>storage = [data_int64 8], iter = 1\<rparr>) \<and>
   reload_position \<lparr>start = 5, counter = 5\<rparr> (record_position \<lparr>start = 5, counter = 8\<rparr> empty_tape) =
     Inr (\<lparr>start = 5, counter = 8\<rparr>, \<lparr>storage = [data_int64 8], iter = 1\<rparr>) \<and>
   start (fst (apply_source_ops [Next, Record_position, Next, Reload_position, Reset]
     (\<lparr>start = 5, counter = 5\<rparr>, empty_tape))) = 5"
  using position_is_counter_only [of "\<lparr>start = 5, counter = 8\<rparr>" empty_tape 8
      "\<lparr>start = 5, counter = 5\<rparr>" "[]"]
    position_is_counter_only [of "\<lparr>start = 5, counter = 5\<rparr>" "\<lparr>storage = [data_int64 8], iter = 0\<rparr>" 8
      "\<lparr>start = 5, counter = 5\<rparr>" "[Next, Record_position, Next, Reload_position, Reset]"]
  by (simp add: empty_tape_def record_position_def tape_record_def next_count_def reset_def
      reload_position_def tape_read_int64_def)

section \<open>Properties of the control tokens\<close>



lemma SwapElements_adjacent:
  "SwapElements (int (length xs) + 1) (int (length xs)) (xs @ y # x # ys) = xs @ x # y # ys"
  by (simp add: SwapElements_def nat_add_distrib list_update_append nth_append)

lemma move_to_front_stop: "i \<le> 0 \<Longrightarrow> move_to_front i xs = xs"
  by (subst move_to_front.simps) simp

lemma move_to_front_step:
  "0 < i \<Longrightarrow> move_to_front i xs = move_to_front (i - 1) (SwapElements i (i - 1) xs)"
  by (subst move_to_front.simps) simp

lemma move_to_front_middle:
  "move_to_front (int (length xs)) (xs @ x # ys) = x # xs @ ys"
proof (induction xs arbitrary: ys rule: rev_induct)
  case Nil
  show ?case by (simp add: move_to_front_stop)
next
  case (snoc y xs)
  have "move_to_front (int (length (xs @ [y]))) ((xs @ [y]) @ x # ys) =
        move_to_front (int (length xs) + 1) (xs @ y # x # ys)"
    by (simp add: add.commute)
  also have "\<dots> = move_to_front (int (length xs))
        (SwapElements (int (length xs) + 1) (int (length xs)) (xs @ y # x # ys))"
    using move_to_front_step [of "int (length xs) + 1" "xs @ y # x # ys"] by simp
  also have "\<dots> = move_to_front (int (length xs)) (xs @ x # y # ys)"
    by (simp only: SwapElements_adjacent)
  also have "\<dots> = x # xs @ y # ys"
    by (rule snoc.IH)
  finally show ?case by simp
qed

lemma move_to_front_append:
  "move_to_front (int (length (xs @ [x])) - 1) (xs @ [x]) = x # xs"
  using move_to_front_middle [of xs x "[]"] by simp

lemma move_to_front_swaps:
  "move_to_front i xs = fold (\<lambda>j. SwapElements j (j - 1)) (rev [1..i]) xs"
proof (induction i xs rule: move_to_front.induct)
  case (1 i xs)
  show ?case
  proof (cases "0 < i")
    case True
    have "[1..i] = [1..i - 1] @ [i]"
      using True by (intro upto_rec2) simp
    then have "rev [1..i] = i # rev [1..i - 1]"
      by (simp only: rev_append rev.simps append.simps)
    then have "fold (\<lambda>j. SwapElements j (j - 1)) (rev [1..i]) xs =
        fold (\<lambda>j. SwapElements j (j - 1)) (rev [1..i - 1]) (SwapElements i (i - 1) xs)"
      by simp
    also have "\<dots> = move_to_front (i - 1) (SwapElements i (i - 1) xs)"
      using 1 [OF True] by simp
    also have "\<dots> = move_to_front i xs"
      using True by (simp only: move_to_front_step)
    finally show ?thesis by (rule sym)
  next
    case False
    then show ?thesis by (simp add: move_to_front_stop)
  qed
qed

lemma add_control_token_legacy:
  "add_control_token ''<pad>@0'' proto =
     \<lparr>pieces = control_piece ''<pad>'' # pieces proto,
      trainer_spec = (trainer_spec proto)\<lparr>pad_piece := Some ''<pad>''\<rparr>\<rparr>"
  using move_to_front_append [of "pieces proto" "control_piece ''<pad>''"]
  by (simp add: add_control_token_def add_piece_def set_pad_piece_def control_piece_def Let_def)

lemma add_control_token_plain:
  "add_control_token ''<pad>'' proto =
     \<lparr>pieces = pieces proto @ [control_piece ''<pad>''],
      trainer_spec = (trainer_spec proto)\<lparr>pad_piece := Some ''<pad>''\<rparr>\<rparr>"
  by (simp add: add_control_token_def add_piece_def set_pad_piece_def control_piece_def Let_def)

lemma add_control_token_empty: "add_control_token [] proto = proto"
  by (simp add: add_control_token_def)

lemma add_control_token_other:
  "token \<noteq> [] \<Longrightarrow> token \<noteq> ''<pad>'' \<Longrightarrow> token \<noteq> ''<pad>@0'' \<Longrightarrow>
   add_control_token token proto =
     \<lparr>pieces = pieces proto @ [control_piece token], trainer_spec = trainer_spec proto\<rparr>"
  by (simp add: add_control_token_def add_piece_def control_piece_def)

lemma pieces_add_control_token:
  "pieces (add_control_token token proto) =
     (if token = ''<pad>@0'' then control_piece ''<pad>'' # pieces proto
      else if token = [] then pieces proto
      else pieces proto @ [control_piece token])"
  using add_control_token_legacy [of proto] add_control_token_plain [of proto]
    add_control_token_other [of token proto]
  by (cases "token = ''<pad>''") (auto simp: add_control_token_empty)

lemma pieces_add_control_tokens:
  "pieces (add_control_tokens tokens proto) =
     replicate (count_list tokens ''<pad>@0'') (control_piece ''<pad>'') @ pieces proto @
     map control_piece (filter (\<lambda>t. t \<noteq> [] \<and> t \<noteq> ''<pad>@0'') tokens)"
proof (induction tokens arbitrary: proto)
  case Nil
  show ?case by simp
next
  case (Cons token tokens)
  show ?case
    by (simp add: Cons.IH pieces_add_control_token replicate_append_same del: replicate.simps)
       (simp add: replicate_append_same [symmetric])
qed


lemma trainer_spec_add_control_token:
  "trainer_spec (add_control_token token proto) =
     (if token = ''<pad>'' \<or> token = ''<pad>@0''
      then (trainer_spec proto)\<lparr>pad_piece := Some ''<pad>''\<rparr> else trainer_spec proto)"
  using add_control_token_legacy [of proto] add_control_token_plain [of proto]
    add_control_token_other [of token proto]
  by (cases "token = []") (auto simp: add_control_token_empty)

lemma pad_piece_add_control_tokens:
  "pad_piece (trainer_spec (add_control_tokens tokens proto)) =
     (if \<exists>t \<in> set tokens. t = ''<pad>'' \<or> t = ''<pad>@0'' then Some ''<pad>''
      else pad_piece (trainer_spec proto))"
proof (induction tokens arbitrary: proto)
  case Nil
  show ?case by simp
next
  case (Cons token tokens)
  show ?case
    by (simp add: Cons.IH trainer_spec_add_control_token)
qed

lemma pad_count_add_control_token:
  "length (filter (\<lambda>p. piece p = ''<pad>'') (pieces (add_control_token token proto))) =
     length (filter (\<lambda>p. piece p = ''<pad>'') (pieces proto)) +
     (if token = ''<pad>'' \<or> token = ''<pad>@0'' then 1 else 0)"
  by (simp add: pieces_add_control_token control_piece_def)

lemma pad_count_add_control_tokens:
  "length (filter (\<lambda>p. piece p = ''<pad>'') (pieces (add_control_tokens tokens proto))) =
     length (filter (\<lambda>p. piece p = ''<pad>'') (pieces proto)) +
     length (filter (\<lambda>t. t = ''<pad>'' \<or> t = ''<pad>@0'') tokens)"
proof (induction tokens arbitrary: proto)
  case Nil
  show ?case by simp
next
  case (Cons token tokens)
  show ?case
    by (simp add: Cons.IH pad_count_add_control_token)
qed

lemma length_pieces_add_control_tokens:
  "length (pieces (add_control_tokens tokens proto)) =
     length (pieces proto) + length (filter (\<lambda>t. t \<noteq> []) tokens)"
proof (induction tokens arbitrary: proto)
  case Nil
  show ?case by simp
next
  case (Cons token tokens)
  show ?case
    by (simp add: Cons.IH pieces_add_control_token)
qed

lemma count_legacy_pos: "x \<in> set xs \<Longrightarrow> 0 < count_list xs x"
  using count_list_0_iff [of xs x] by auto

text \<open>
  Claim C1, as the code has it. One token \<^verbatim>\<open>"<pad>@0"\<close> puts the pad piece at index 0
  and every piece that was in the list one index higher, in the same order. After the
  whole list of control tokens, if it has \<^verbatim>\<open>"<pad>@0"\<close> at all, the pad piece is at index
  0, and every piece of the model is higher than before by the number of times the list
  has \<^verbatim>\<open>"<pad>@0"\<close>: by exactly one when it has it once. The relocation is the loop of
  adjacent swaps \<open>(i, i - 1)\<close> for \<open>i\<close> from the last index down to 1, which takes the
  last element to the front and leaves the others in order.
\<close>

theorem legacy_pad_relocation:
  "pieces (add_control_token ''<pad>@0'' proto) = control_piece ''<pad>'' # pieces proto \<and>
   (''<pad>@0'' \<in> set tokens \<longrightarrow>
      pieces (add_control_tokens tokens proto) ! 0 = control_piece ''<pad>'') \<and>
   (\<forall>i < length (pieces proto).
      pieces (add_control_tokens tokens proto) ! (count_list tokens ''<pad>@0'' + i) =
        pieces proto ! i) \<and>
   (count_list tokens ''<pad>@0'' = 1 \<longrightarrow>
      (\<forall>i < length (pieces proto).
         pieces (add_control_tokens tokens proto) ! (i + 1) = pieces proto ! i)) \<and>
   move_to_front (int (length (xs @ [x])) - 1) (xs @ [x]) = x # xs \<and>
   move_to_front k ys = fold (\<lambda>j. SwapElements j (j - 1)) (rev [1..k]) ys"
proof (intro conjI impI allI)
  show "pieces (add_control_token ''<pad>@0'' proto) = control_piece ''<pad>'' # pieces proto"
    by (simp add: add_control_token_legacy)
  show "pieces (add_control_tokens tokens proto) ! 0 = control_piece ''<pad>''"
    if "''<pad>@0'' \<in> set tokens"
  proof -
    from that obtain n where "count_list tokens ''<pad>@0'' = Suc n"
      using count_legacy_pos [of "''<pad>@0''" tokens] by (auto simp: gr0_conv_Suc)
    then show ?thesis
      by (simp add: pieces_add_control_tokens)
  qed
  show shift: "pieces (add_control_tokens tokens proto) ! (count_list tokens ''<pad>@0'' + i) =
      pieces proto ! i" if "i < length (pieces proto)" for i
    using that by (simp add: pieces_add_control_tokens nth_append)
  show "pieces (add_control_tokens tokens proto) ! (i + 1) = pieces proto ! i"
    if "count_list tokens ''<pad>@0'' = 1" "i < length (pieces proto)" for i
    using shift [OF that(2)] that(1) by simp
  show "move_to_front (int (length (xs @ [x])) - 1) (xs @ [x]) = x # xs"
    by (rule move_to_front_append)
  show "move_to_front k ys = fold (\<lambda>j. SwapElements j (j - 1)) (rev [1..k]) ys"
    by (rule move_to_front_swaps)
qed

theorem legacy_pad_relocation_witness:
  "''<pad>@0'' \<in> set [''<pad>@0''] \<and> count_list [''<pad>@0''] ''<pad>@0'' = 1 \<and>
   length (pieces \<lparr>pieces = [\<lparr>piece = ''<unk>'', score = 0, piece_type = UNKNOWN\<rparr>,
                             \<lparr>piece = ''<s>'', score = 0, piece_type = CONTROL\<rparr>,
                             \<lparr>piece = ''</s>'', score = 0, piece_type = CONTROL\<rparr>],
                   trainer_spec = \<lparr>pad_piece = None\<rparr>\<rparr>) = 3 \<and>
   pieces (add_control_tokens [''<pad>@0'']
     \<lparr>pieces = [\<lparr>piece = ''<unk>'', score = 0, piece_type = UNKNOWN\<rparr>,
                \<lparr>piece = ''<s>'', score = 0, piece_type = CONTROL\<rparr>,
                \<lparr>piece = ''</s>'', score = 0, piece_type = CONTROL\<rparr>],
      trainer_spec = \<lparr>pad_piece = None\<rparr>\<rparr>) ! 0 =
     \<lparr>piece = ''<pad>'', score = 0, piece_type = CONTROL\<rparr> \<and>
   pieces (add_control_tokens [''<pad>@0'']
     \<lparr>pieces = [\<lparr>piece = ''<unk>'', score = 0, piece_type = UNKNOWN\<rparr>,
                \<lparr>piece = ''<s>'', score = 0, piece_type = CONTROL\<rparr>,
                \<lparr>piece = ''</s>'', score = 0, piece_type = CONTROL\<rparr>],
      trainer_spec = \<lparr>pad_piece = None\<rparr>\<rparr>) ! 1 =
     \<lparr>piece = ''<unk>'', score = 0, piece_type = UNKNOWN\<rparr> \<and>
   pieces (add_control_tokens [''<pad>@0'']
     \<lparr>pieces = [\<lparr>piece = ''<unk>'', score = 0, piece_type = UNKNOWN\<rparr>,
                \<lparr>piece = ''<s>'', score = 0, piece_type = CONTROL\<rparr>,
                \<lparr>piece = ''</s>'', score = 0, piece_type = CONTROL\<rparr>],
      trainer_spec = \<lparr>pad_piece = None\<rparr>\<rparr>) ! 2 =
     \<lparr>piece = ''<s>'', score = 0, piece_type = CONTROL\<rparr> \<and>
   pieces (add_control_tokens [''<pad>@0'']
     \<lparr>pieces = [\<lparr>piece = ''<unk>'', score = 0, piece_type = UNKNOWN\<rparr>,
                \<lparr>piece = ''<s>'', score = 0, piece_type = CONTROL\<rparr>,
                \<lparr>piece = ''</s>'', score = 0, piece_type = CONTROL\<rparr>],
      trainer_spec = \<lparr>pad_piece = None\<rparr>\<rparr>) ! 3 =
     \<lparr>piece = ''</s>'', score = 0, piece_type = CONTROL\<rparr>"
  using legacy_pad_relocation [where tokens = "[''<pad>@0'']" and
      xs = "[1::nat]" and x = 0 and k = 1 and ys = "[1::nat, 0]" and
      proto = "\<lparr>pieces = [\<lparr>piece = ''<unk>'', score = 0, piece_type = UNKNOWN\<rparr>,
                \<lparr>piece = ''<s>'', score = 0, piece_type = CONTROL\<rparr>,
                \<lparr>piece = ''</s>'', score = 0, piece_type = CONTROL\<rparr>],
      trainer_spec = \<lparr>pad_piece = None\<rparr>\<rparr>"]
  by (simp add: control_piece_def All_less_Suc eval_nat_numeral del: add_control_tokens.simps)

text \<open>
  With \<^verbatim>\<open>"<pad>@0"\<close> twice in the list, the piece of a one-piece model ends at index 2,
  not 1.
\<close>

theorem legacy_pad_twice_counterexample:
  "''<pad>@0'' \<in> set [''<pad>@0'', ''<pad>@0''] \<and>
   pieces (add_control_tokens [''<pad>@0'', ''<pad>@0'']
     \<lparr>pieces = [\<lparr>piece = ''a'', score = 0, piece_type = NORMAL\<rparr>],
      trainer_spec = \<lparr>pad_piece = None\<rparr>\<rparr>) ! (0 + 1) \<noteq>
   pieces \<lparr>pieces = [\<lparr>piece = ''a'', score = 0, piece_type = NORMAL\<rparr>],
      trainer_spec = \<lparr>pad_piece = None\<rparr>\<rparr> ! 0 \<and>
   pieces (add_control_tokens [''<pad>@0'', ''<pad>@0'']
     \<lparr>pieces = [\<lparr>piece = ''a'', score = 0, piece_type = NORMAL\<rparr>],
      trainer_spec = \<lparr>pad_piece = None\<rparr>\<rparr>) =
     [\<lparr>piece = ''<pad>'', score = 0, piece_type = CONTROL\<rparr>,
      \<lparr>piece = ''<pad>'', score = 0, piece_type = CONTROL\<rparr>,
      \<lparr>piece = ''a'', score = 0, piece_type = NORMAL\<rparr>]"
  by (simp add: add_control_token_legacy control_piece_def)

text \<open>
  Claim C3, as the code has it. For a padding marker in either spelling, the loader sets
  the pad piece of the trainer spec to the literal \<^verbatim>\<open>"<pad>"\<close> and appends \<^verbatim>\<open>"<pad>"\<close> as a
  new control piece at the end of the list; for the legacy spelling that piece is then
  moved to the front.
\<close>

theorem pad_marker_sets_pad_literal:
  "token = ''<pad>'' \<or> token = ''<pad>@0'' \<Longrightarrow>
   add_piece ''<pad>'' (set_pad_piece ''<pad>'' proto) =
     \<lparr>pieces = pieces proto @ [\<lparr>piece = ''<pad>'', score = 0, piece_type = CONTROL\<rparr>],
      trainer_spec = (trainer_spec proto)\<lparr>pad_piece := Some ''<pad>''\<rparr>\<rparr> \<and>
   add_control_token token proto =
     (if token = ''<pad>@0''
      then (add_piece ''<pad>'' (set_pad_piece ''<pad>'' proto))
             \<lparr>pieces := \<lparr>piece = ''<pad>'', score = 0, piece_type = CONTROL\<rparr> # pieces proto\<rparr>
      else add_piece ''<pad>'' (set_pad_piece ''<pad>'' proto)) \<and>
   pad_piece (trainer_spec (add_control_token token proto)) = Some ''<pad>''"
  using add_control_token_legacy [of proto] add_control_token_plain [of proto]
  by (auto simp: add_piece_def set_pad_piece_def control_piece_def)

theorem pad_marker_sets_pad_literal_witness:
  "add_control_token ''<pad>''
     \<lparr>pieces = [\<lparr>piece = ''a'', score = 0, piece_type = NORMAL\<rparr>],
      trainer_spec = \<lparr>pad_piece = None\<rparr>\<rparr> =
     \<lparr>pieces = [\<lparr>piece = ''a'', score = 0, piece_type = NORMAL\<rparr>,
                \<lparr>piece = ''<pad>'', score = 0, piece_type = CONTROL\<rparr>],
      trainer_spec = \<lparr>pad_piece = Some ''<pad>''\<rparr>\<rparr> \<and>
   add_control_token ''<pad>@0''
     \<lparr>pieces = [\<lparr>piece = ''a'', score = 0, piece_type = NORMAL\<rparr>],
      trainer_spec = \<lparr>pad_piece = None\<rparr>\<rparr> =
     \<lparr>pieces = [\<lparr>piece = ''<pad>'', score = 0, piece_type = CONTROL\<rparr>,
                \<lparr>piece = ''a'', score = 0, piece_type = NORMAL\<rparr>],
      trainer_spec = \<lparr>pad_piece = Some ''<pad>''\<rparr>\<rparr>"
  using pad_marker_sets_pad_literal [of "''<pad>''"
      "\<lparr>pieces = [\<lparr>piece = ''a'', score = 0, piece_type = NORMAL\<rparr>],
        trainer_spec = \<lparr>pad_piece = None\<rparr>\<rparr>"]
    pad_marker_sets_pad_literal [of "''<pad>@0''"
      "\<lparr>pieces = [\<lparr>piece = ''a'', score = 0, piece_type = NORMAL\<rparr>],
        trainer_spec = \<lparr>pad_piece = None\<rparr>\<rparr>"]
  by (simp add: add_piece_def set_pad_piece_def)

text \<open>
  For the token \<^verbatim>\<open>"<pad>@0"\<close> the pad piece is not that string, and the piece added is
  \<^verbatim>\<open>"<pad>"\<close>, not \<^verbatim>\<open>"<pad>@0"\<close>.
\<close>

theorem legacy_marker_literal_counterexample:
  "pad_piece (trainer_spec (add_control_token ''<pad>@0''
     \<lparr>pieces = [], trainer_spec = \<lparr>pad_piece = None\<rparr>\<rparr>)) \<noteq> Some ''<pad>@0'' \<and>
   pieces (add_control_token ''<pad>@0'' \<lparr>pieces = [], trainer_spec = \<lparr>pad_piece = None\<rparr>\<rparr>) =
     [\<lparr>piece = ''<pad>'', score = 0, piece_type = CONTROL\<rparr>] \<and>
   pieces (add_control_token ''<pad>@0'' \<lparr>pieces = [], trainer_spec = \<lparr>pad_piece = None\<rparr>\<rparr>) \<noteq>
     pieces \<lparr>pieces = [], trainer_spec = \<lparr>pad_piece = None\<rparr>\<rparr> @
       [\<lparr>piece = ''<pad>@0'', score = 0, piece_type = CONTROL\<rparr>]"
  by (simp add: add_control_token_legacy control_piece_def)

text \<open>
  Claim C10. Padding markers are not deduplicated: the number of pieces with the surface
  \<^verbatim>\<open>"<pad>"\<close> grows by the number of padding markers in the list, whatever the model had
  before; each marker adds one more control piece \<^verbatim>\<open>"<pad>"\<close> and sets the pad piece of
  the trainer spec again, so that after the list the pad piece is \<^verbatim>\<open>"<pad>"\<close> as soon as
  the list has a marker.
\<close>

theorem pad_markers_not_deduplicated:
  "length (filter (\<lambda>p. piece p = ''<pad>'') (pieces (add_control_tokens tokens proto))) =
     length (filter (\<lambda>p. piece p = ''<pad>'') (pieces proto)) +
     length (filter (\<lambda>t. t = ''<pad>'' \<or> t = ''<pad>@0'') tokens) \<and>
   length (filter (\<lambda>p. p = \<lparr>piece = ''<pad>'', score = 0, piece_type = CONTROL\<rparr>)
       (pieces (add_control_token token proto))) =
     length (filter (\<lambda>p. p = \<lparr>piece = ''<pad>'', score = 0, piece_type = CONTROL\<rparr>)
       (pieces proto)) +
     (if token = ''<pad>'' \<or> token = ''<pad>@0'' then 1 else 0) \<and>
   trainer_spec (add_control_token token proto) =
     (if token = ''<pad>'' \<or> token = ''<pad>@0''
      then (trainer_spec proto)\<lparr>pad_piece := Some ''<pad>''\<rparr> else trainer_spec proto) \<and>
   pad_piece (trainer_spec (add_control_tokens tokens proto)) =
     (if \<exists>t \<in> set tokens. t = ''<pad>'' \<or> t = ''<pad>@0'' then Some ''<pad>''
      else pad_piece (trainer_spec proto))"
proof (intro conjI)
  show "length (filter (\<lambda>p. piece p = ''<pad>'') (pieces (add_control_tokens tokens proto))) =
     length (filter (\<lambda>p. piece p = ''<pad>'') (pieces proto)) +
     length (filter (\<lambda>t. t = ''<pad>'' \<or> t = ''<pad>@0'') tokens)"
    by (rule pad_count_add_control_tokens)
  show "length (filter (\<lambda>p. p = \<lparr>piece = ''<pad>'', score = 0, piece_type = CONTROL\<rparr>)
       (pieces (add_control_token token proto))) =
     length (filter (\<lambda>p. p = \<lparr>piece = ''<pad>'', score = 0, piece_type = CONTROL\<rparr>)
       (pieces proto)) +
     (if token = ''<pad>'' \<or> token = ''<pad>@0'' then 1 else 0)"
    by (simp add: pieces_add_control_token control_piece_def)
  show "trainer_spec (add_control_token token proto) =
     (if token = ''<pad>'' \<or> token = ''<pad>@0''
      then (trainer_spec proto)\<lparr>pad_piece := Some ''<pad>''\<rparr> else trainer_spec proto)"
    by (rule trainer_spec_add_control_token)
  show "pad_piece (trainer_spec (add_control_tokens tokens proto)) =
     (if \<exists>t \<in> set tokens. t = ''<pad>'' \<or> t = ''<pad>@0'' then Some ''<pad>''
      else pad_piece (trainer_spec proto))"
    by (rule pad_piece_add_control_tokens)
qed

theorem pad_markers_not_deduplicated_witness:
  "length (filter (\<lambda>p. piece p = ''<pad>'')
     (pieces \<lparr>pieces = [\<lparr>piece = ''<pad>'', score = 0, piece_type = CONTROL\<rparr>],
              trainer_spec = \<lparr>pad_piece = Some ''<pad>''\<rparr>\<rparr>)) = 1 \<and>
   length (filter (\<lambda>p. piece p = ''<pad>'')
     (pieces (add_control_tokens [''<pad>'', ''<pad>@0'']
        \<lparr>pieces = [\<lparr>piece = ''<pad>'', score = 0, piece_type = CONTROL\<rparr>],
         trainer_spec = \<lparr>pad_piece = Some ''<pad>''\<rparr>\<rparr>))) = 3 \<and>
   pad_piece (trainer_spec (add_control_tokens [''<pad>'', ''<pad>@0'']
        \<lparr>pieces = [\<lparr>piece = ''<pad>'', score = 0, piece_type = CONTROL\<rparr>],
         trainer_spec = \<lparr>pad_piece = Some ''<pad>''\<rparr>\<rparr>)) = Some ''<pad>''"
  using pad_markers_not_deduplicated [of "[''<pad>'', ''<pad>@0'']"
      "\<lparr>pieces = [\<lparr>piece = ''<pad>'', score = 0, piece_type = CONTROL\<rparr>],
        trainer_spec = \<lparr>pad_piece = Some ''<pad>''\<rparr>\<rparr>" "''<pad>''"]
  by (simp del: add_control_tokens.simps)

section \<open>Properties of the loader's errors and of the processor\<close>

lemma uint_scast_nonneg:
  fixes g :: int32
  assumes "0 \<le> sint g"
  shows "uint (scast g :: size_t) = sint g"
proof -
  have "sint g < 2 ^ 31"
    using sint_lt [of g] by simp
  then have "sint g < 2 ^ 64"
    by (rule less_le_trans) simp
  have "uint (scast g :: size_t) = sint g mod 2 ^ LENGTH(64)"
    by (simp only: scast_eq [of g] uint_word_of_int)
  then have "uint (scast g :: size_t) = sint g mod 2 ^ 64"
    by simp
  also have "\<dots> = sint g"
    using assms \<open>sint g < 2 ^ 64\<close> by simp
  finally show ?thesis .
qed

lemma uint_scast_neg:
  fixes g :: int32
  assumes "sint g < 0"
  shows "uint (scast g :: size_t) = 2 ^ 64 + sint g"
proof -
  have lo: "- (2 ^ 31) \<le> sint g"
    using sint_ge [of g] by simp
  have "uint (scast g :: size_t) = sint g mod 2 ^ LENGTH(64)"
    by (simp only: scast_eq [of g] uint_word_of_int)
  then have "uint (scast g :: size_t) = sint g mod 2 ^ 64"
    by simp
  also have "\<dots> = (sint g + 2 ^ 64) mod 2 ^ 64"
    by simp
  also have "\<dots> = sint g + 2 ^ 64"
    using assms lo by (intro mod_pos_pos_trivial) simp_all
  finally show ?thesis by simp
qed

lemma out_of_range_iff:
  fixes idx g :: int32
  assumes "0 \<le> sint g"
  shows "(scast g :: size_t) \<le> scast idx \<longleftrightarrow> sint idx < 0 \<or> sint g \<le> sint idx"
proof (cases "sint idx < 0")
  case True
  have "sint g < 2 ^ 31"
    using sint_lt [of g] by simp
  moreover have "- (2 ^ 31) \<le> sint idx"
    using sint_ge [of idx] by simp
  ultimately show ?thesis
    using True assms by (simp add: word_le_def uint_scast_nonneg uint_scast_neg)
next
  case False
  then show ?thesis
    using assms by (simp add: word_le_def uint_scast_nonneg)
qed

lemma new_sp_processor_Inr:
  assumes "new_sp_processor lib pathname tokens = Inr p"
  shows "load lib pathname tokens = Inr (native p) \<and>
         \<not> pad_id (native p) <s 0 \<and>
         p = \<lparr>native = native p, unk_idx = unk_id (native p), bos_idx = bos_id (native p),
              eos_idx = eos_id (native p), pad_idx = pad_id (native p),
              vocab_size = scast (GetPieceSize (native p))\<rparr>"
  using assms
  by (auto simp: new_sp_processor_def conditional_cast_int32_def conditional_cast_size_t_def
      Let_def split: sum.splits if_splits)

text \<open>
  Claim C4. \<^verbatim>\<open>load_proto\<close> throws the system error for a missing file exactly when the
  library's status is not ok and has the code \<^verbatim>\<open>kNotFound\<close>, the system error for a refused
  access exactly when the status is not ok and has the code \<^verbatim>\<open>kPermissionDenied\<close>, and a
  runtime error with the library's message exactly for every other status that is not ok.
  \<^verbatim>\<open>load_processor\<close> throws exactly when the status of the engine's load is not ok, a
  runtime error with the library's message. Every exception of the two steps leaves
  \<^verbatim>\<open>load\<close> and the constructor of the processor as it is: the library is asked once, and
  nothing catches the exception.
\<close>

theorem load_errors:
  "(load_proto lib pathname = Inl (system_error no_such_file_or_directory) \<longleftrightarrow>
      \<not> ok (fst (LoadModelProto lib pathname)) \<and>
      code (fst (LoadModelProto lib pathname)) = kNotFound) \<and>
   (load_proto lib pathname = Inl (system_error permission_denied) \<longleftrightarrow>
      \<not> ok (fst (LoadModelProto lib pathname)) \<and>
      code (fst (LoadModelProto lib pathname)) = kPermissionDenied) \<and>
   (load_proto lib pathname = Inl (runtime_error m) \<longleftrightarrow>
      \<not> ok (fst (LoadModelProto lib pathname)) \<and>
      code (fst (LoadModelProto lib pathname)) \<noteq> kNotFound \<and>
      code (fst (LoadModelProto lib pathname)) \<noteq> kPermissionDenied \<and>
      m = message (fst (LoadModelProto lib pathname))) \<and>
   (load_proto lib pathname = Inr proto \<longleftrightarrow>
      ok (fst (LoadModelProto lib pathname)) \<and> proto = snd (LoadModelProto lib pathname)) \<and>
   (load_processor lib proto = Inl e \<longleftrightarrow>
      \<not> ok (fst (Load lib proto)) \<and> e = runtime_error (message (fst (Load lib proto)))) \<and>
   (load_proto lib pathname = Inl e \<longrightarrow>
      load lib pathname tokens = Inl e \<and> new_sp_processor lib pathname tokens = Inl e) \<and>
   (load_proto lib pathname = Inr proto \<and>
    load_processor lib (add_control_tokens tokens proto) = Inl e \<longrightarrow>
      load lib pathname tokens = Inl e \<and> new_sp_processor lib pathname tokens = Inl e)"
proof (intro conjI)
  show "load_proto lib pathname = Inl (system_error no_such_file_or_directory) \<longleftrightarrow>
      \<not> ok (fst (LoadModelProto lib pathname)) \<and>
      code (fst (LoadModelProto lib pathname)) = kNotFound"
    by (auto simp: load_proto_def split: prod.splits)
  show "load_proto lib pathname = Inl (system_error permission_denied) \<longleftrightarrow>
      \<not> ok (fst (LoadModelProto lib pathname)) \<and>
      code (fst (LoadModelProto lib pathname)) = kPermissionDenied"
    by (auto simp: load_proto_def split: prod.splits)
  show "load_proto lib pathname = Inl (runtime_error m) \<longleftrightarrow>
      \<not> ok (fst (LoadModelProto lib pathname)) \<and>
      code (fst (LoadModelProto lib pathname)) \<noteq> kNotFound \<and>
      code (fst (LoadModelProto lib pathname)) \<noteq> kPermissionDenied \<and>
      m = message (fst (LoadModelProto lib pathname))"
    by (auto simp: load_proto_def split: prod.splits)
  show "load_proto lib pathname = Inr proto \<longleftrightarrow>
      ok (fst (LoadModelProto lib pathname)) \<and> proto = snd (LoadModelProto lib pathname)"
    by (auto simp: load_proto_def split: prod.splits)
  show "load_processor lib proto = Inl e \<longleftrightarrow>
      \<not> ok (fst (Load lib proto)) \<and> e = runtime_error (message (fst (Load lib proto)))"
    by (auto simp: load_processor_def split: prod.splits)
  show "load_proto lib pathname = Inl e \<longrightarrow>
      load lib pathname tokens = Inl e \<and> new_sp_processor lib pathname tokens = Inl e"
    by (simp add: load_def new_sp_processor_def)
  show "load_proto lib pathname = Inr proto \<and>
    load_processor lib (add_control_tokens tokens proto) = Inl e \<longrightarrow>
      load lib pathname tokens = Inl e \<and> new_sp_processor lib pathname tokens = Inl e"
    by (simp add: load_def new_sp_processor_def)
qed

theorem load_errors_witness:
  "new_sp_processor example_library ''missing.model'' [] =
     Inl (system_error no_such_file_or_directory) \<and>
   new_sp_processor example_library ''secret.model'' [] =
     Inl (system_error permission_denied) \<and>
   new_sp_processor example_library ''broken.model'' [] =
     Inl (runtime_error ''could not parse ModelProto'') \<and>
   load_proto example_library ''nllb.model'' = Inr example_model \<and>
   new_sp_processor example_library ''nllb.model'' [''<pad>'', ''<pad>''] =
     Inl (runtime_error ''piece is already defined'')"
  using
    load_errors [where lib = example_library and pathname = "''missing.model''" and
      tokens = "[]" and e = "system_error no_such_file_or_directory" and
      m = "[]" and proto = example_model]
    load_errors [where lib = example_library and pathname = "''secret.model''" and
      tokens = "[]" and e = "system_error permission_denied" and
      m = "[]" and proto = example_model]
    load_errors [where lib = example_library and pathname = "''broken.model''" and
      tokens = "[]" and e = "runtime_error ''could not parse ModelProto''" and
      m = "''could not parse ModelProto''" and proto = example_model]
    load_errors [where lib = example_library and pathname = "''nllb.model''" and
      tokens = "[''<pad>'', ''<pad>'']" and e = "runtime_error ''piece is already defined''" and
      m = "[]" and proto = example_model]
  by (simp add: example_library_def example_model_def add_control_token_plain control_piece_def
      load_processor_def)

text \<open>
  Claim C5. For a processor that the constructor has built from an engine whose piece
  count is not negative, \<^verbatim>\<open>index_to_token(idx)\<close> throws the domain error if and only if
  the index is negative or at least the vocabulary size, and returns the engine's piece
  for every other index. The vocabulary size is the engine's piece count; the index
  equal to it throws, and the index one below it returns a piece when the vocabulary is
  not empty.
\<close>

theorem index_to_token_range:
  assumes "new_sp_processor lib pathname tokens = Inr p"
    and "0 \<le> sint (GetPieceSize (native p))"
  shows "(index_to_token p idx = Inl (domain_error ''The specified index is out of range.'') \<longleftrightarrow>
            sint idx < 0 \<or> uint (vocab_size p) \<le> sint idx) \<and>
         (0 \<le> sint idx \<and> sint idx < uint (vocab_size p) \<longrightarrow>
            index_to_token p idx = Inr (IdToPiece (native p) idx)) \<and>
         uint (vocab_size p) = sint (GetPieceSize (native p)) \<and>
         index_to_token p (GetPieceSize (native p)) =
           Inl (domain_error ''The specified index is out of range.'') \<and>
         (0 < sint (GetPieceSize (native p)) \<longrightarrow>
            index_to_token p (GetPieceSize (native p) - 1) =
              Inr (IdToPiece (native p) (GetPieceSize (native p) - 1)))"
proof -
  let ?g = "GetPieceSize (native p)"
  have vs: "vocab_size p = scast ?g"
    using new_sp_processor_Inr [OF assms(1)]
    by (metis sp_processor.select_convs(6))
  have size: "uint (vocab_size p) = sint ?g"
    by (simp add: vs uint_scast_nonneg assms(2))
  have fails: "index_to_token p i = Inl (domain_error ''The specified index is out of range.'') \<longleftrightarrow>
      sint i < 0 \<or> sint ?g \<le> sint i" for i
    using out_of_range_iff [OF assms(2), of i]
    by (simp add: index_to_token_def vs)
  have succeeds: "index_to_token p i = Inr (IdToPiece (native p) i)"
    if "0 \<le> sint i" "sint i < sint ?g" for i
    using out_of_range_iff [OF assms(2), of i] that
    by (simp add: index_to_token_def vs conditional_cast_int32_def)
  have last: "sint (?g - 1) = sint ?g - 1" if "0 < sint ?g"
  proof -
    have "sint (?g - 1) = signed_take_bit 31 (sint ?g - 1)"
      by (simp add: sint_word_ariths)
    also have "\<dots> = sint ?g - 1"
      using that sint_lt [of ?g] by (simp add: signed_take_bit_int_eq_self)
    finally show ?thesis .
  qed
  show ?thesis
    using fails [of idx] fails [of ?g] succeeds [of idx] succeeds [of "?g - 1"] last size
    by auto
qed

lemma example_processor:
  "new_sp_processor example_library ''nllb.model'' [''<pad>@0''] =
     Inr \<lparr>native = example_engine (add_control_tokens [''<pad>@0''] example_model),
          unk_idx = 1, bos_idx = 2, eos_idx = 3, pad_idx = 0, vocab_size = 4\<rparr>"
  by (simp add: new_sp_processor_def load_def load_proto_def load_processor_def
      example_library_def example_model_def example_engine_def add_control_token_legacy
      control_piece_def conditional_cast_int32_def conditional_cast_size_t_def)

theorem index_to_token_range_witness:
  "new_sp_processor example_library ''nllb.model'' [''<pad>@0''] =
     Inr \<lparr>native = example_engine (add_control_tokens [''<pad>@0''] example_model),
          unk_idx = 1, bos_idx = 2, eos_idx = 3, pad_idx = 0, vocab_size = 4\<rparr> \<and>
   index_to_token \<lparr>native = example_engine (add_control_tokens [''<pad>@0''] example_model),
          unk_idx = 1, bos_idx = 2, eos_idx = 3, pad_idx = 0, vocab_size = 4\<rparr> 4 =
     Inl (domain_error ''The specified index is out of range.'') \<and>
   index_to_token \<lparr>native = example_engine (add_control_tokens [''<pad>@0''] example_model),
          unk_idx = 1, bos_idx = 2, eos_idx = 3, pad_idx = 0, vocab_size = 4\<rparr> (- 1) =
     Inl (domain_error ''The specified index is out of range.'') \<and>
   index_to_token \<lparr>native = example_engine (add_control_tokens [''<pad>@0''] example_model),
          unk_idx = 1, bos_idx = 2, eos_idx = 3, pad_idx = 0, vocab_size = 4\<rparr> 3 =
     Inr ''</s>''"
proof -
  let ?p = "\<lparr>native = example_engine (add_control_tokens [''<pad>@0''] example_model),
          unk_idx = 1, bos_idx = 2, eos_idx = 3, pad_idx = 0, vocab_size = 4\<rparr>"
  have size: "GetPieceSize (example_engine (add_control_tokens [''<pad>@0''] example_model)) = 4"
    by (simp add: example_engine_def example_model_def add_control_token_legacy)
  have nonneg: "0 \<le> sint (GetPieceSize (native ?p))"
    using size by simp
  have last: "IdToPiece (example_engine (add_control_tokens [''<pad>@0''] example_model)) 3 =
      ''</s>''"
    by (simp add: example_engine_def example_model_def add_control_token_legacy control_piece_def)
  note range = index_to_token_range [OF example_processor nonneg]
  show ?thesis
    using range [of 4] range [of "- 1"] range [of 3] example_processor last size
    by simp
qed

subsection \<open>The compiled engine and the constructor\<close>

lemma piece_index_None: "piece_index s ps = None \<longleftrightarrow> s \<notin> piece ` set ps"
  by (induction ps) auto

lemma piece_index_Some:
  "piece_index s ps = Some i \<Longrightarrow>
   i < length ps \<and> piece (ps ! i) = s \<and> (\<forall>j < i. piece (ps ! j) \<noteq> s)"
proof (induction ps arbitrary: i)
  case Nil
  then show ?case by simp
next
  case (Cons p ps)
  show ?case
  proof (cases "piece p = s")
    case True
    with Cons.prems show ?thesis by simp
  next
    case False
    with Cons.prems obtain k where k: "piece_index s ps = Some k" "i = Suc k"
      by auto
    from Cons.IH [OF k(1)] False k(2) show ?thesis
      by (auto simp: less_Suc_eq_0_disj)
  qed
qed



lemma load_modelled:
  assumes "load_proto (modelled_library files status reserved) pathname = Inr proto"
  shows "load (modelled_library files status reserved) pathname tokens =
     (if \<not> ok (status (add_control_tokens tokens proto))
      then Inl (runtime_error (message (status (add_control_tokens tokens proto))))
      else Inr (compiled_engine
        (fst (reserved (add_control_tokens tokens proto)))
        (fst (snd (reserved (add_control_tokens tokens proto))))
        (snd (snd (reserved (add_control_tokens tokens proto))))
        (add_control_tokens tokens proto)))"
  using assms
  by (simp add: load_def load_processor_def modelled_library_def split: prod.splits)


lemma library_of_load_proto: "load_proto (library_of model) pathname = Inr model"
  by (simp add: library_of_def modelled_library_def load_proto_def)

lemma library_of_load:
  "load (library_of model) pathname tokens =
     Inr (compiled_engine (fst (example_reserved (add_control_tokens tokens model)))
       (fst (snd (example_reserved (add_control_tokens tokens model))))
       (snd (snd (example_reserved (add_control_tokens tokens model))))
       (add_control_tokens tokens model))"
  using load_modelled [of "\<lambda>pathname. (\<lparr>ok = True, code = kOk, message = []\<rparr>, model)"
      "\<lambda>proto. \<lparr>ok = True, code = kOk, message = []\<rparr>" example_reserved pathname model tokens]
    library_of_load_proto [of model pathname]
  by (simp add: library_of_def)



lemma patched_engine:
  "compiled_engine (fst (example_reserved (add_control_tokens [''<pad>@0''] example_model)))
     (fst (snd (example_reserved (add_control_tokens [''<pad>@0''] example_model))))
     (snd (snd (example_reserved (add_control_tokens [''<pad>@0''] example_model))))
     (add_control_tokens [''<pad>@0''] example_model) =
   compiled_engine 1 2 3 (add_control_tokens [''<pad>@0''] example_model)"
  "pad_id (compiled_engine 1 2 3 (add_control_tokens [''<pad>@0''] example_model)) = 0"
  "GetPieceSize (compiled_engine 1 2 3 (add_control_tokens [''<pad>@0''] example_model)) = 4"
  "unk_id (compiled_engine 1 2 3 (add_control_tokens [''<pad>@0''] example_model)) = 1"
  "bos_id (compiled_engine 1 2 3 (add_control_tokens [''<pad>@0''] example_model)) = 2"
  "eos_id (compiled_engine 1 2 3 (add_control_tokens [''<pad>@0''] example_model)) = 3"
  by (simp_all add: example_reserved_def example_model_def compiled_engine_def pad_piece_index_def
      add_control_token_legacy control_piece_def)



text \<open>
  Claim C9. For a processor that the constructor has built on the engine of the
  specification, \<^verbatim>\<open>token_to_index\<close> never throws. For a token that is the surface of a
  piece of the patched list it returns the vocabulary id of the token, the first index at
  which the list has it; for any other token it returns the unknown id that the
  processor holds.
\<close>

theorem token_to_index_total:
  assumes "load_proto (modelled_library files status reserved) pathname = Inr proto"
    and "new_sp_processor (modelled_library files status reserved) pathname tokens = Inr p"
  shows "(\<exists>i. token_to_index p token = Inr i) \<and>
     token_to_index p token =
       Inr (case piece_index token (pieces (add_control_tokens tokens proto)) of
              Some i \<Rightarrow> of_nat i
            | None \<Rightarrow> unk_idx p) \<and>
     (token \<in> piece ` set (pieces (add_control_tokens tokens proto)) \<longrightarrow>
        (\<exists>i < length (pieces (add_control_tokens tokens proto)).
           piece (pieces (add_control_tokens tokens proto) ! i) = token \<and>
           (\<forall>j < i. piece (pieces (add_control_tokens tokens proto) ! j) \<noteq> token) \<and>
           token_to_index p token = Inr (of_nat i))) \<and>
     (token \<notin> piece ` set (pieces (add_control_tokens tokens proto)) \<longrightarrow>
        token_to_index p token = Inr (unk_idx p))"
proof -
  let ?patched = "add_control_tokens tokens proto"
  let ?engine = "compiled_engine (fst (reserved ?patched)) (fst (snd (reserved ?patched)))
      (snd (snd (reserved ?patched))) ?patched"
  from new_sp_processor_Inr [OF assms(2)]
  have loaded: "load (modelled_library files status reserved) pathname tokens = Inr (native p)"
    and p: "p = \<lparr>native = native p, unk_idx = unk_id (native p), bos_idx = bos_id (native p),
              eos_idx = eos_id (native p), pad_idx = pad_id (native p),
              vocab_size = scast (GetPieceSize (native p))\<rparr>"
    by simp_all
  have engine: "native p = ?engine"
    using loaded load_modelled [OF assms(1), of tokens] by (simp split: if_splits)
  have unk: "unk_idx p = unk_id (native p)"
    using p by (metis sp_processor.select_convs(2))
  have lookup: "token_to_index p token =
      Inr (case piece_index token (pieces ?patched) of Some i \<Rightarrow> of_nat i | None \<Rightarrow> unk_idx p)"
  proof -
    have "unk_idx p = fst (reserved ?patched)"
      by (simp add: unk) (simp add: engine compiled_engine_def)
    moreover have "PieceToId (native p) token =
        (case piece_index token (pieces ?patched) of
           Some i \<Rightarrow> of_nat i
         | None \<Rightarrow> fst (reserved ?patched))"
      by (simp add: engine compiled_engine_def)
    ultimately show ?thesis
      by (simp add: token_to_index_def conditional_cast_int32_def split: option.splits)
  qed
  have known: "\<exists>i < length (pieces ?patched).
      piece (pieces ?patched ! i) = token \<and>
      (\<forall>j < i. piece (pieces ?patched ! j) \<noteq> token) \<and>
      token_to_index p token = Inr (of_nat i)"
    if "token \<in> piece ` set (pieces ?patched)"
  proof -
    from that obtain i where i: "piece_index token (pieces ?patched) = Some i"
      using piece_index_None [of token "pieces ?patched"] by auto
    from piece_index_Some [OF i] lookup i show ?thesis
      by auto
  qed
  have unknown: "token_to_index p token = Inr (unk_idx p)"
    if "token \<notin> piece ` set (pieces ?patched)"
    using that lookup piece_index_None [of token "pieces ?patched"] by simp
  show ?thesis
    using lookup known unknown by blast
qed

theorem token_to_index_total_witness:
  "load_proto (library_of example_model) ''nllb.model'' = Inr example_model \<and>
   new_sp_processor (library_of example_model) ''nllb.model'' [''<pad>@0''] =
     Inr \<lparr>native = compiled_engine 1 2 3 (add_control_tokens [''<pad>@0''] example_model),
          unk_idx = 1, bos_idx = 2, eos_idx = 3, pad_idx = 0, vocab_size = 4\<rparr> \<and>
   token_to_index \<lparr>native = compiled_engine 1 2 3 (add_control_tokens [''<pad>@0''] example_model),
          unk_idx = 1, bos_idx = 2, eos_idx = 3, pad_idx = 0, vocab_size = 4\<rparr> ''</s>'' = Inr 3 \<and>
   token_to_index \<lparr>native = compiled_engine 1 2 3 (add_control_tokens [''<pad>@0''] example_model),
          unk_idx = 1, bos_idx = 2, eos_idx = 3, pad_idx = 0, vocab_size = 4\<rparr> ''hello'' = Inr 1"
proof -
  let ?files = "\<lambda>pathname :: string. (\<lparr>ok = True, code = kOk, message = []\<rparr>, example_model)"
  let ?status = "\<lambda>proto :: ModelProto. \<lparr>ok = True, code = kOk, message = []\<rparr>"
  let ?p = "\<lparr>native = compiled_engine 1 2 3 (add_control_tokens [''<pad>@0''] example_model),
          unk_idx = 1, bos_idx = 2, eos_idx = 3, pad_idx = 0, vocab_size = 4\<rparr>"
  have lib: "library_of example_model = modelled_library ?files ?status example_reserved"
    by (simp add: library_of_def)
  have proto: "load_proto (modelled_library ?files ?status example_reserved) ''nllb.model'' =
      Inr example_model"
    using library_of_load_proto [of example_model "''nllb.model''"] by (simp only: lib)
  have built: "new_sp_processor (library_of example_model) ''nllb.model'' [''<pad>@0''] = Inr ?p"
    by (simp add: new_sp_processor_def library_of_load patched_engine conditional_cast_int32_def
        conditional_cast_size_t_def word_sless_alt del: add_control_tokens.simps)
  then have built': "new_sp_processor (modelled_library ?files ?status example_reserved)
      ''nllb.model'' [''<pad>@0''] = Inr ?p"
    by (simp only: lib)
  note lookup = token_to_index_total [OF proto built', THEN conjunct2, THEN conjunct1]
  have "token_to_index ?p ''</s>'' = Inr 3"
    using lookup [of "''</s>''"]
    by (simp add: example_model_def add_control_token_legacy control_piece_def)
  moreover have "token_to_index ?p ''hello'' = Inr 1"
    using lookup [of "''hello''"]
    by (simp add: example_model_def add_control_token_legacy control_piece_def)
  ultimately show ?thesis
    using built library_of_load_proto [of example_model "''nllb.model''"] by simp
qed

end
